theory Spec2Isabelle
  imports Complex_Main "HOL-Library.Multiset"
begin

section \<open>Hillslope linear diffusion: the class \<open>diffLinear\<close>\<close>

text \<open>
  A shallow embedding of \<^verbatim>\<open>pyBadlands/hillslope/diffLinear.py\<close>.

  Conventions of the model.
  \<^item> A finite \<^verbatim>\<open>float64\<close> is a \<^typ>\<open>real\<close>: rounding, overflow and underflow are not
    modelled. The values a scalar float division can add to the finite ones
    (\<^verbatim>\<open>inf\<close>, \<^verbatim>\<open>-inf\<close>, \<^verbatim>\<open>nan\<close>) are constructors of \<open>npfloat\<close>.
  \<^item> A raised exception is a value \<open>Inl e\<close>; a normal return is \<open>Inr\<close> of the returned
    value together with the state after the call.
  \<^item> The methods are modelled on a configured instance: \<^verbatim>\<open>CDaerial\<close> and
    \<^verbatim>\<open>CDmarine\<close> hold floats (the caller assigns them after \<^verbatim>\<open>__init__\<close>), whereas
    \<^verbatim>\<open>CFL\<close> is \<^verbatim>\<open>None\<close> until a stability method has run.
\<close>

subsection \<open>Values and errors\<close>

datatype error = ValueError | IndexError

datatype npfloat = Fin real | PInf | NInf | NaN

text \<open>Division of two finite floats, numpy scalar semantics: a zero divisor gives an
  infinity or \<^verbatim>\<open>nan\<close> (with a \<^verbatim>\<open>RuntimeWarning\<close>), it raises nothing.\<close>

definition np_div :: "real \<Rightarrow> real \<Rightarrow> npfloat" where
  "np_div x y =
     (if y = 0 then (if 0 < x then PInf else if x < 0 then NInf else NaN)
      else Fin (x / y))"

text \<open>The comparison \<^verbatim>\<open><\<close> of floats; \<^verbatim>\<open>nan\<close> compares false with everything.\<close>

fun np_less :: "npfloat \<Rightarrow> npfloat \<Rightarrow> bool" where
  "np_less (Fin a) (Fin b) = (a < b)"
| "np_less (Fin a) PInf = True"
| "np_less NInf (Fin b) = True"
| "np_less NInf PInf = True"
| "np_less _ _ = False"

subsection \<open>The numpy operations the class uses, on one-dimensional arrays\<close>

text \<open>\<^verbatim>\<open>a.flatten()\<close> of a two-dimensional array (a list of rows), in row-major order.
  A one-dimensional edge sequence is the array with that single row.\<close>

definition flatten :: "real list list \<Rightarrow> real list" where
  "flatten a = concat a"

text \<open>\<^verbatim>\<open>numpy.where(cond)\<close> on a one-dimensional array: the indices at which the
  condition holds, ascending.\<close>

definition numpy_where :: "(real \<Rightarrow> bool) \<Rightarrow> real list \<Rightarrow> nat list" where
  "numpy_where p xs = filter (\<lambda>i. p (xs ! i)) [0..<length xs]"

text \<open>\<^verbatim>\<open>a[ids]\<close> with an index array: the selected entries, or \<^verbatim>\<open>IndexError\<close> when an
  index is out of bounds.\<close>

definition getitem :: "real list \<Rightarrow> nat list \<Rightarrow> error + real list" where
  "getitem xs ids =
     (if list_all (\<lambda>i. i < length xs) ids then Inr (map (\<lambda>i. xs ! i) ids)
      else Inl IndexError)"

text \<open>\<^verbatim>\<open>a[ids] = vals\<close> with an index array: \<^verbatim>\<open>IndexError\<close> when an index is out of
  bounds, otherwise the entries are written one by one. (The class only assigns value
  arrays computed from the same index array, so both have the same length.)\<close>

definition setitem :: "real list \<Rightarrow> nat list \<Rightarrow> real list \<Rightarrow> error + real list" where
  "setitem xs ids vals =
     (if list_all (\<lambda>i. i < length xs) ids
      then Inr (fold (\<lambda>(i, v) ys. ys[i := v]) (zip ids vals) xs)
      else Inl IndexError)"

text \<open>\<^verbatim>\<open>numpy.amin\<close>: the minimum of the entries; a zero-size array raises
  \<^verbatim>\<open>ValueError\<close> (the reduction has no identity).\<close>

definition numpy_amin :: "real list \<Rightarrow> error + real" where
  "numpy_amin xs = (case xs of [] \<Rightarrow> Inl ValueError | x # r \<Rightarrow> Inr (fold min r x))"

text \<open>Sequencing of a step that may raise with the rest of the method body.\<close>

definition bind_err :: "error + 'a \<Rightarrow> ('a \<Rightarrow> error + 'b) \<Rightarrow> error + 'b" where
  "bind_err r k = (case r of Inl e \<Rightarrow> Inl e | Inr v \<Rightarrow> k v)"

subsection \<open>The collective reduction\<close>

text \<open>\<^verbatim>\<open>MPI.MIN\<close> on two doubles, the usual \<^verbatim>\<open>a < b ? a : b\<close>.\<close>

definition mpi_min :: "npfloat \<Rightarrow> npfloat \<Rightarrow> npfloat" where
  "mpi_min a b = (if np_less a b then a else b)"

text \<open>\<^verbatim>\<open>comm.Allreduce(MPI.IN_PLACE, CFL, op=MPI.MIN)\<close> as seen by one process: its own
  buffer holds \<open>mine\<close>, the other processes of the communicator contribute \<open>others\<close>
  (empty in a single-process run); afterwards the buffer holds the reduction of all of
  them.\<close>

definition Allreduce_MIN :: "npfloat \<Rightarrow> npfloat list \<Rightarrow> npfloat" where
  "Allreduce_MIN mine others = fold mpi_min others mine"

subsection \<open>The instance state\<close>

record diffLinear =
  CDaerial :: real
  CDmarine :: real
  CFL :: "npfloat option"

subsection \<open>\<^verbatim>\<open>dt_pstability\<close>\<close>

text \<open>The method has no \<^verbatim>\<open>return\<close> statement: the value returned to the caller is
  Python's \<^verbatim>\<open>None\<close>, here \<open>None :: npfloat option\<close>.\<close>

definition dt_pstability ::
  "diffLinear \<Rightarrow> real list list \<Rightarrow> npfloat list \<Rightarrow> error + (npfloat option \<times> diffLinear)" where
  "dt_pstability self edgelen others =
     (let maxCD = max (CDaerial self) (CDmarine self);
          edgedist = flatten edgelen;
          distIDs = numpy_where (\<lambda>x. x > 0) edgedist
      in bind_err (getitem edgedist distIDs) (\<lambda>sel.
         bind_err (numpy_amin (map (\<lambda>x. x\<^sup>2) sel)) (\<lambda>m.
           let CFL0 = np_div (0.05 * m) maxCD;
               CFL1 = Allreduce_MIN CFL0 others
           in Inr (None, self\<lparr>CFL := Some CFL1\<rparr>))))"

subsection \<open>\<^verbatim>\<open>dt_fstability\<close>\<close>

text \<open>The local candidate comes from the Fortran routine
  \<^verbatim>\<open>FLOWalgo.flowcompute.diffcfl\<close>, whose source is not part of the Python module; the
  method is modelled for an arbitrary routine \<open>diffcfl\<close>, which may raise.\<close>

definition dt_fstability ::
  "(real list list \<Rightarrow> real \<Rightarrow> error + npfloat) \<Rightarrow>
   diffLinear \<Rightarrow> real list list \<Rightarrow> npfloat list \<Rightarrow> error + (npfloat option \<times> diffLinear)" where
  "dt_fstability diffcfl self edgelen others =
     (let maxCD = max (CDaerial self) (CDmarine self)
      in bind_err (diffcfl edgelen maxCD) (\<lambda>dt.
           let CFL1 = Allreduce_MIN dt others
           in Inr (None, self\<lparr>CFL := Some CFL1\<rparr>)))"

subsection \<open>Arrays in memory\<close>

text \<open>\<^verbatim>\<open>sedflux\<close> receives references to arrays and allocates a new one, so its arrays
  live in a store: an address is an index into the list of the arrays allocated so far,
  and an allocation appends. Two arguments may be the same address (the same array).\<close>

type_synonym addr = nat
type_synonym heap = "real list list"

text \<open>\<^verbatim>\<open>numpy.zeros(n)\<close>: a new array of \<open>n\<close> zeros.\<close>

definition numpy_zeros :: "nat \<Rightarrow> heap \<Rightarrow> addr \<times> heap" where
  "numpy_zeros n h = (length h, h @ [replicate n 0])"

text \<open>\<^verbatim>\<open>a[ids] = vals\<close> on the array stored at address \<open>a\<close>.\<close>

definition heap_setitem :: "heap \<Rightarrow> addr \<Rightarrow> nat list \<Rightarrow> real list \<Rightarrow> error + heap" where
  "heap_setitem h a ids vals = bind_err (setitem (h ! a) ids vals) (\<lambda>ys. Inr (h[a := ys]))"

subsection \<open>\<^verbatim>\<open>sedflux\<close>\<close>

text \<open>The arguments \<open>diff_flux\<close>, \<open>elevation\<close> and \<open>area\<close> are addresses of
  one-dimensional arrays in the store \<open>h\<close>; the result is the address of the returned
  array, the instance state and the store after the call.\<close>

definition sedflux ::
  "diffLinear \<Rightarrow> addr \<Rightarrow> real \<Rightarrow> addr \<Rightarrow> addr \<Rightarrow> heap \<Rightarrow> error + (addr \<times> diffLinear \<times> heap)" where
  "sedflux self diff_flux sea elevation area h =
     (let (flux, h0) = numpy_zeros (length (h ! elevation)) h;
          tmpIDs = numpy_where (\<lambda>x. x > 0) (h0 ! area)
      in bind_err (getitem (h0 ! diff_flux) tmpIDs) (\<lambda>num.
         bind_err (getitem (h0 ! area) tmpIDs) (\<lambda>den.
         bind_err (heap_setitem h0 flux tmpIDs (map2 (/) num den)) (\<lambda>h1.
         let dryIDs = numpy_where (\<lambda>x. x \<ge> sea) (h1 ! elevation)
         in bind_err (getitem (h1 ! flux) dryIDs) (\<lambda>dry.
            bind_err (heap_setitem h1 flux dryIDs (map (\<lambda>x. x * CDaerial self) dry)) (\<lambda>h2.
            let wetIDs = numpy_where (\<lambda>x. x < sea) (h2 ! elevation)
            in bind_err (getitem (h2 ! flux) wetIDs) (\<lambda>wet.
               bind_err (heap_setitem h2 flux wetIDs (map (\<lambda>x. x * CDmarine self) wet)) (\<lambda>h3.
               Inr (flux, self, h3)))))))))"

subsection \<open>The native kernel and the comparison of two timesteps\<close>

text \<open>Modelled from the spec: the routine \<^verbatim>\<open>FLOWalgo.flowcompute.diffcfl\<close> called by
  \<^verbatim>\<open>dt_fstability\<close>, whose Fortran source is missing. The specification gives the kernel
  path the same contract as the geometric one: filter to the strictly positive lengths,
  fail when none is left, and otherwise produce the local candidate
  \<^verbatim>\<open>0.05 * min(length^2 for length in filtered) / max(aerial, marine)\<close>.\<close>

definition diffcfl_spec :: "real list list \<Rightarrow> real \<Rightarrow> error + npfloat" where
  "diffcfl_spec edgelen maxCD =
     (let filtered = filter (\<lambda>l. 0 < l) (flatten edgelen)
      in if filtered = [] then Inl ValueError
         else Inr (np_div (0.05 * Min (set (map (\<lambda>l. l\<^sup>2) filtered))) maxCD))"

text \<open>Two timesteps agree within the relative tolerance \<open>rtol\<close>; equal infinities agree,
  \<^verbatim>\<open>nan\<close> agrees with nothing.\<close>

fun isclose :: "real \<Rightarrow> npfloat \<Rightarrow> npfloat \<Rightarrow> bool" where
  "isclose rtol (Fin a) (Fin b) = (\<bar>a - b\<bar> \<le> rtol * max \<bar>a\<bar> \<bar>b\<bar>)"
| "isclose rtol PInf PInf = True"
| "isclose rtol NInf NInf = True"
| "isclose rtol _ _ = False"

text \<open>\<^verbatim>\<open>numpy.isfinite\<close>: neither an infinity nor \<^verbatim>\<open>nan\<close>.\<close>

fun isfinite :: "npfloat \<Rightarrow> bool" where
  "isfinite (Fin x) = True"
| "isfinite _ = False"

section \<open>Auxiliary facts\<close>

subsection \<open>Index arrays\<close>

lemma set_numpy_where: "set (numpy_where p xs) = {i. i < length xs \<and> p (xs ! i)}"
  by (auto simp: numpy_where_def)

lemma getitem_where: "getitem xs (numpy_where p xs) = Inr (filter p xs)"
proof -
  have "map (\<lambda>i. xs ! i) (filter (\<lambda>i. p (xs ! i)) [0..<length xs]) = filter p (map (\<lambda>i. xs ! i) [0..<length xs])"
    by (simp add: filter_map comp_def)
  then show ?thesis
    by (simp add: getitem_def numpy_where_def list_all_iff map_nth)
qed

lemma numpy_amin_Min: "xs \<noteq> [] \<Longrightarrow> numpy_amin xs = Inr (Min (set xs))"
proof (cases xs)
  case Nil
  assume "xs \<noteq> []"
  with Nil show ?thesis by simp
next
  case (Cons a r)
  have "fold min r a = Min (set (a # r))" by (rule Min.set_eq_fold [symmetric])
  with Cons show ?thesis by (simp add: numpy_amin_def)
qed

lemma dt_pstability_eq:
  "dt_pstability self edgelen others =
     (if \<exists>x\<in>set (flatten edgelen). 0 < x
      then Inr (None, self\<lparr>CFL := Some (Allreduce_MIN
              (np_div (0.05 * Min (set (map (\<lambda>x. x\<^sup>2) (filter (\<lambda>x. 0 < x) (flatten edgelen)))))
                      (max (CDaerial self) (CDmarine self))) others)\<rparr>)
      else Inl ValueError)"
proof (cases "\<exists>x\<in>set (flatten edgelen). 0 < x")
  case True
  let ?sel = "filter (\<lambda>x. 0 < x) (flatten edgelen)"
  have ne: "map (\<lambda>x. x\<^sup>2) ?sel \<noteq> []" using True by (simp add: filter_empty_conv)
  show ?thesis using True numpy_amin_Min [OF ne]
    by (simp add: dt_pstability_def getitem_where bind_err_def del: set_map set_filter)
next
  case False
  then have "filter (\<lambda>x. 0 < x) (flatten edgelen) = []"
    by (simp add: filter_empty_conv)
  then show ?thesis using False
    by (simp add: dt_pstability_def getitem_where bind_err_def numpy_amin_def)
qed

subsection \<open>Indexed assignment\<close>

lemma fold_update_nth:
  "\<forall>i\<in>set ids. i < length xs \<Longrightarrow>
   length (fold (\<lambda>(i, v) ys. ys[i := v]) (zip ids (map f ids)) xs) = length xs \<and>
   (\<forall>j<length xs. fold (\<lambda>(i, v) ys. ys[i := v]) (zip ids (map f ids)) xs ! j =
       (if j \<in> set ids then f j else xs ! j))"
proof (induction ids arbitrary: xs)
  case Nil
  then show ?case by simp
next
  case (Cons i ids)
  have b: "\<forall>k\<in>set ids. k < length (xs[i := f i])" using Cons.prems by simp
  show ?case using Cons.IH [OF b] Cons.prems
    by (auto simp: nth_list_update)
qed

lemma setitem_map:
  assumes "\<forall>i\<in>set ids. i < length xs"
  shows "setitem xs ids (map f ids) =
         Inr (map (\<lambda>j. if j \<in> set ids then f j else xs ! j) [0..<length xs])"
proof -
  let ?ys = "fold (\<lambda>(i, v) ys. ys[i := v]) (zip ids (map f ids)) xs"
  have "?ys = map (\<lambda>j. if j \<in> set ids then f j else xs ! j) [0..<length xs]"
    using fold_update_nth [OF assms, of f] by (intro nth_equalityI) auto
  then show ?thesis using assms by (simp add: setitem_def list_all_iff)
qed

lemma setitem_IndexError:
  "\<not> (\<forall>i\<in>set ids. i < length xs) \<Longrightarrow> setitem xs ids vals = Inl IndexError"
  by (simp add: setitem_def list_all_iff)

lemma getitem_eq:
  "getitem xs ids = (if \<forall>i\<in>set ids. i < length xs then Inr (map (\<lambda>i. xs ! i) ids) else Inl IndexError)"
  by (simp add: getitem_def list_all_iff)

text \<open>One in-place scaling step \<^verbatim>\<open>flux[ids] = flux[ids] * c\<close> with
  \<^verbatim>\<open>ids = numpy.where(cond(elevation))\<close>.\<close>

lemma scale_step:
  assumes "length F = length E"
  shows "bind_err (getitem F (numpy_where p E)) (\<lambda>v.
           bind_err (setitem F (numpy_where p E) (map (\<lambda>x. x * c) v)) k) =
         k (map (\<lambda>j. if p (E ! j) then F ! j * c else F ! j) [0..<length E])"
proof -
  have b: "\<forall>i\<in>set (numpy_where p E). i < length F"
    using assms by (simp add: set_numpy_where)
  have m: "map (\<lambda>j. if j \<in> set (numpy_where p E) then F ! j * c else F ! j) [0..<length F]
         = map (\<lambda>j. if p (E ! j) then F ! j * c else F ! j) [0..<length E]"
    using assms by (simp add: set_numpy_where)
  have "setitem F (numpy_where p E) (map (\<lambda>x. x * c) (map (\<lambda>i. F ! i) (numpy_where p E)))
        = setitem F (numpy_where p E) (map (\<lambda>i. F ! i * c) (numpy_where p E))"
    by (simp add: comp_def)
  also have "\<dots> = Inr (map (\<lambda>j. if p (E ! j) then F ! j * c else F ! j) [0..<length E])"
    using setitem_map [OF b, of "\<lambda>i. F ! i * c"] m by simp
  finally show ?thesis using b by (simp add: getitem_eq bind_err_def)
qed

subsection \<open>The body of \<^verbatim>\<open>sedflux\<close>\<close>

lemma bind_err_Inr: "bind_err (Inr v) k = k v"
  by (simp add: bind_err_def)

lemma bind_err_Inl: "bind_err (Inl e) k = Inl e"
  by (simp add: bind_err_def)

lemma heap_setitem_bind:
  "bind_err (heap_setitem h a ids vals) k =
   bind_err (setitem (h ! a) ids vals) (\<lambda>ys. k (h[a := ys]))"
  by (cases "setitem (h ! a) ids vals") (simp_all add: heap_setitem_def bind_err_def)

text \<open>The first assignment \<^verbatim>\<open>flux[tmpIDs] = diff_flux[tmpIDs] / area[tmpIDs]\<close> on the
  fresh array of zeros.\<close>

lemma ratio_step:
  "bind_err (getitem D (numpy_where (\<lambda>x. 0 < x) A)) (\<lambda>num.
     bind_err (getitem A (numpy_where (\<lambda>x. 0 < x) A)) (\<lambda>den.
       bind_err (setitem (replicate n 0) (numpy_where (\<lambda>x. 0 < x) A) (map2 (/) num den)) k)) =
   (if \<exists>i<length A. 0 < A ! i \<and> (length D \<le> i \<or> n \<le> i) then Inl IndexError
    else k (map (\<lambda>j. if j < length A \<and> 0 < A ! j then D ! j / A ! j else 0) [0..<n]))"
proof -
  let ?ids = "numpy_where (\<lambda>x. 0 < x) A"
  let ?bad = "\<exists>i<length A. 0 < A ! i \<and> (length D \<le> i \<or> n \<le> i)"
  have gA: "getitem A ?ids = Inr (map (\<lambda>i. A ! i) ?ids)"
    by (simp add: getitem_eq set_numpy_where)
  have m2: "map2 (/) (map (\<lambda>i. D ! i) ?ids) (map (\<lambda>i. A ! i) ?ids) = map (\<lambda>i. D ! i / A ! i) ?ids"
    by (simp add: map2_map_map)
  show ?thesis
  proof (cases "\<forall>i\<in>set ?ids. i < length D")
    case False
    then have ex: ?bad
      by (auto simp: set_numpy_where not_less)
    from False have gD: "getitem D ?ids = Inl IndexError"
      by (simp add: getitem_eq)
    show ?thesis by (simp only: gD bind_err_Inl ex if_True)
  next
    case inD: True
    then have gD: "getitem D ?ids = Inr (map (\<lambda>i. D ! i) ?ids)"
      by (simp add: getitem_eq)
    show ?thesis
    proof (cases "\<forall>i\<in>set ?ids. i < n")
      case False
      then have ex: ?bad
        by (auto simp: set_numpy_where not_less)
      from False have "setitem (replicate n 0) ?ids (map (\<lambda>i. D ! i / A ! i) ?ids) = Inl IndexError"
        by (intro setitem_IndexError) simp
      then show ?thesis by (simp only: gD gA m2 bind_err_Inr bind_err_Inl ex if_True)
    next
      case inN: True
      from inD inN have nex: "\<not> ?bad"
        by (auto simp: set_numpy_where not_le)
      have b: "\<forall>i\<in>set ?ids. i < length (replicate n (0::real))" using inN by simp
      have "setitem (replicate n 0) ?ids (map (\<lambda>i. D ! i / A ! i) ?ids) =
            Inr (map (\<lambda>j. if j < length A \<and> 0 < A ! j then D ! j / A ! j else 0) [0..<n])"
        using setitem_map [OF b, of "\<lambda>i. D ! i / A ! i"] by (simp add: set_numpy_where)
      then show ?thesis by (simp only: gD gA m2 bind_err_Inr nex if_False)
    qed
  qed
qed

lemma sedflux_eq:
  assumes "diff_flux < length h" and "elevation < length h" and "area < length h"
  shows "sedflux self diff_flux sea elevation area h =
     (if \<exists>i<length (h ! area). 0 < h ! area ! i \<and>
            (length (h ! diff_flux) \<le> i \<or> length (h ! elevation) \<le> i)
      then Inl IndexError
      else Inr (length h, self,
            h @ [map (\<lambda>i. (if i < length (h ! area) \<and> 0 < h ! area ! i
                              then h ! diff_flux ! i / h ! area ! i else 0) *
                             (if sea \<le> h ! elevation ! i then CDaerial self else CDmarine self))
                     [0..<length (h ! elevation)]]))"
proof -
  let ?D = "h ! diff_flux" and ?E = "h ! elevation" and ?A = "h ! area"
  let ?n = "length ?E"
  let ?F1 = "map (\<lambda>j. if j < length ?A \<and> 0 < ?A ! j then ?D ! j / ?A ! j else 0) [0..<?n]"
  let ?F2 = "map (\<lambda>j. if sea \<le> ?E ! j then ?F1 ! j * CDaerial self else ?F1 ! j) [0..<?n]"
  let ?F3 = "map (\<lambda>j. if ?E ! j < sea then ?F2 ! j * CDmarine self else ?F2 ! j) [0..<?n]"
  have rd: "\<And>F. (h @ [F]) ! diff_flux = ?D" "\<And>F. (h @ [F]) ! elevation = ?E"
    "\<And>F. (h @ [F]) ! area = ?A" "\<And>F. (h @ [F]) ! length h = F"
    "\<And>F G. (h @ [F])[length h := G] = h @ [G]"
    using assms by (simp_all add: nth_append)
  have F3: "?F3 = map (\<lambda>i. (if i < length ?A \<and> 0 < ?A ! i then ?D ! i / ?A ! i else 0) *
                     (if sea \<le> ?E ! i then CDaerial self else CDmarine self)) [0..<?n]"
    by (rule nth_equalityI) (simp_all add: not_le)
  have l1: "length ?F1 = ?n" and l2: "length ?F2 = ?n" by simp_all
  have s2: "\<And>k. bind_err (getitem ?F1 (numpy_where (\<lambda>x. sea \<le> x) ?E)) (\<lambda>v.
           bind_err (setitem ?F1 (numpy_where (\<lambda>x. sea \<le> x) ?E) (map (\<lambda>x. x * CDaerial self) v)) k) = k ?F2"
    by (rule scale_step [OF l1])
  have s3: "\<And>k. bind_err (getitem ?F2 (numpy_where (\<lambda>x. x < sea) ?E)) (\<lambda>v.
           bind_err (setitem ?F2 (numpy_where (\<lambda>x. x < sea) ?E) (map (\<lambda>x. x * CDmarine self) v)) k) = k ?F3"
    by (rule scale_step [OF l2])
  have "sedflux self diff_flux sea elevation area h =
     (if \<exists>i<length ?A. 0 < ?A ! i \<and> (length ?D \<le> i \<or> ?n \<le> i) then Inl IndexError
      else Inr (length h, self, h @ [?F3]))"
    unfolding sedflux_def numpy_zeros_def Let_def prod.case heap_setitem_bind rd
    apply (subst ratio_step)
    apply (simp only: rd s2 s3)
    done
  then show ?thesis by (simp only: F3)
qed

subsection \<open>The reduction\<close>

lemma mpi_min_left_commute: "mpi_min x (mpi_min y a) = mpi_min y (mpi_min x a)"
  by (cases x; cases y; cases a) (auto simp: mpi_min_def)

lemma Allreduce_MIN_mset:
  assumes "mset xs = mset ys"
  shows "Allreduce_MIN c xs = Allreduce_MIN c ys"
proof -
  have "fold mpi_min xs = fold mpi_min ys"
    by (rule fold_multiset_equiv [OF _ assms]) (simp add: fun_eq_iff mpi_min_left_commute)
  then show ?thesis by (simp add: Allreduce_MIN_def)
qed

lemma Allreduce_MIN_mem: "Allreduce_MIN c xs = c \<or> Allreduce_MIN c xs \<in> set xs"
  unfolding Allreduce_MIN_def
proof (induction xs arbitrary: c)
  case Nil
  show ?case by simp
next
  case (Cons x xs)
  show ?case using Cons.IH [of "mpi_min x c"] by (auto simp: mpi_min_def)
qed

lemma mpi_min_not_NaN: "c \<noteq> NaN \<Longrightarrow> mpi_min x c \<noteq> NaN"
  by (cases x; cases c) (auto simp: mpi_min_def)

lemma mpi_min_below:
  "c \<noteq> NaN \<Longrightarrow> np_less x g \<or> np_less c g \<Longrightarrow> np_less (mpi_min x c) g"
  by (cases x; cases c; cases g) (auto simp: mpi_min_def)

lemma Allreduce_MIN_least:
  "c \<noteq> NaN \<Longrightarrow> \<forall>x\<in>set (c # xs). \<not> np_less x (Allreduce_MIN c xs)"
  unfolding Allreduce_MIN_def
proof (induction xs arbitrary: c)
  case Nil
  then show ?case by (cases c) auto
next
  case (Cons x xs)
  have n: "mpi_min x c \<noteq> NaN" using Cons.prems by (rule mpi_min_not_NaN)
  from Cons.IH [OF n] have ih: "\<forall>y\<in>set (mpi_min x c # xs). \<not> np_less y (fold mpi_min xs (mpi_min x c))" .
  then have "\<not> np_less (mpi_min x c) (fold mpi_min xs (mpi_min x c))" by simp
  with mpi_min_below [OF Cons.prems] have "\<not> np_less x (fold mpi_min xs (mpi_min x c))"
    and "\<not> np_less c (fold mpi_min xs (mpi_min x c))" by blast+
  with ih show ?case by simp
qed

lemma np_div_pos: "0 < x \<Longrightarrow> np_div x y \<noteq> NaN"
  by (simp add: np_div_def)

lemma Min_squares_pos:
  assumes "\<exists>x\<in>set xs. 0 < (x::real)"
  shows "0 < Min (set (map (\<lambda>x. x\<^sup>2) (filter (\<lambda>x. 0 < x) xs)))"
proof -
  have "set (map (\<lambda>x. x\<^sup>2) (filter (\<lambda>x. 0 < x) xs)) \<noteq> {}" using assms by auto
  then have "Min (set (map (\<lambda>x. x\<^sup>2) (filter (\<lambda>x. 0 < x) xs))) \<in> set (map (\<lambda>x. x\<^sup>2) (filter (\<lambda>x. 0 < x) xs))"
    by (intro Min_in) simp_all
  then show ?thesis by auto
qed

text \<open>The reduction seen by two different participants: what matters is the collection
  of all candidates, the process's own among them.\<close>

lemma Allreduce_MIN_whole: "c \<noteq> NaN \<Longrightarrow> Allreduce_MIN c xs = fold mpi_min (c # xs) PInf"
  by (cases c) (simp_all add: Allreduce_MIN_def mpi_min_def)

lemma Allreduce_MIN_participants:
  assumes "mset (c # xs) = mset (c' # ys)" and "NaN \<notin> set (c # xs)"
  shows "Allreduce_MIN c xs = Allreduce_MIN c' ys"
proof -
  have "set (c # xs) = set (c' # ys)" using assms(1) by (rule mset_eq_setD)
  then have c': "c' \<noteq> NaN" and c: "c \<noteq> NaN" using assms(2) by auto
  have "fold mpi_min (c # xs) = fold mpi_min (c' # ys)"
    by (rule fold_multiset_equiv [OF _ assms(1)]) (simp add: fun_eq_iff mpi_min_left_commute)
  then show ?thesis by (simp only: Allreduce_MIN_whole [OF c] Allreduce_MIN_whole [OF c'])
qed

text \<open>The local candidate of a process is what it stores when it runs alone.\<close>

lemma dt_pstability_alone:
  assumes "dt_pstability self edgelen [] = Inr (None, self\<lparr>CFL := Some c\<rparr>)"
  shows "dt_pstability self edgelen others =
           Inr (None, self\<lparr>CFL := Some (Allreduce_MIN c others)\<rparr>)"
proof (cases "\<exists>x\<in>set (flatten edgelen). 0 < x")
  case True
  let ?c = "np_div (0.05 * Min (set (map (\<lambda>x. x\<^sup>2) (filter (\<lambda>x. 0 < x) (flatten edgelen)))))
                   (max (CDaerial self) (CDmarine self))"
  from True assms have "self\<lparr>CFL := Some ?c\<rparr> = self\<lparr>CFL := Some c\<rparr>"
    by (simp add: dt_pstability_eq Allreduce_MIN_def)
  then have "CFL (self\<lparr>CFL := Some ?c\<rparr>) = CFL (self\<lparr>CFL := Some c\<rparr>)" by (rule arg_cong)
  then have "?c = c" by simp
  with True show ?thesis by (simp add: dt_pstability_eq)
next
  case False
  with assms show ?thesis by (simp add: dt_pstability_eq)
qed

section \<open>The claims\<close>

subsection \<open>Sediment flux\<close>

text \<open>
  Claim C1. When the three arrays have the same length \<open>n\<close>, \<^verbatim>\<open>sedflux\<close> returns, and for
  every index \<open>i < n\<close> the returned entry is the accumulated flux divided by the area where
  the area is positive, and zero elsewhere, multiplied by \<^verbatim>\<open>CDaerial\<close> where the elevation
  is at or above the sea level and by \<^verbatim>\<open>CDmarine\<close> where it is below. In particular a node
  of area zero has flux zero, whatever the coefficients.
\<close>

theorem sedflux_node_values:
  assumes "diff_flux < length h" and "elevation < length h" and "area < length h"
    and "length (h ! diff_flux) = n" and "length (h ! elevation) = n"
    and "length (h ! area) = n"
  shows "\<exists>flux h'. sedflux self diff_flux sea elevation area h = Inr (flux, self, h') \<and>
           length (h' ! flux) = n \<and>
           (\<forall>i<n. h' ! flux ! i =
                    (if 0 < h ! area ! i then h ! diff_flux ! i / h ! area ! i else 0) *
                    (if sea \<le> h ! elevation ! i then CDaerial self else CDmarine self)) \<and>
           (\<forall>i<n. h ! area ! i = 0 \<longrightarrow> h' ! flux ! i = 0)"
proof -
  let ?F = "map (\<lambda>i. (if i < length (h ! area) \<and> 0 < h ! area ! i
                        then h ! diff_flux ! i / h ! area ! i else 0) *
                       (if sea \<le> h ! elevation ! i then CDaerial self else CDmarine self))
                [0..<length (h ! elevation)]"
  have nobad: "\<not> (\<exists>i<length (h ! area). 0 < h ! area ! i \<and>
            (length (h ! diff_flux) \<le> i \<or> length (h ! elevation) \<le> i))"
    using assms(4-6) by auto
  have r: "sedflux self diff_flux sea elevation area h = Inr (length h, self, h @ [?F])"
    using sedflux_eq [OF assms(1-3), of self sea] nobad by (simp only: if_False)
  have v: "\<forall>i<n. ?F ! i = (if 0 < h ! area ! i then h ! diff_flux ! i / h ! area ! i else 0) *
                    (if sea \<le> h ! elevation ! i then CDaerial self else CDmarine self)"
    using assms(4-6) by simp
  have z: "\<forall>i<n. h ! area ! i = 0 \<longrightarrow> ?F ! i = 0"
    using assms(4-6) by simp
  have l: "length ?F = n" using assms(5) by simp
  have e: "(h @ [?F]) ! length h = ?F" by simp
  show ?thesis
    apply (rule exI [of _ "length h"], rule exI [of _ "h @ [?F]"])
    unfolding e
    using r v z l by blast
qed

text \<open>The wet/dry example: fluxes 10 and 10, elevations 5 and -2, areas 2 and 2, sea level 0,
  coefficients 0.1 and 0.5 give the fluxes 0.5 and 2.5.\<close>

theorem sedflux_node_values_witness:
  "\<exists>flux h'. sedflux \<lparr>CDaerial = 0.1, CDmarine = 0.5, CFL = None\<rparr> 0 0 1 2
                 [[10, 10], [5, -2], [2, 2]]
               = Inr (flux, \<lparr>CDaerial = 0.1, CDmarine = 0.5, CFL = None\<rparr>, h') \<and>
              h' ! flux = [0.5, 2.5]"
proof -
  let ?h = "[[10, 10], [5, -2], [2, 2 :: real]]"
  let ?s = "\<lparr>CDaerial = 0.1, CDmarine = 0.5, CFL = None\<rparr>"
  have a: "(0::nat) < length ?h" "(1::nat) < length ?h" "(2::nat) < length ?h"
    "length (?h ! 0) = 2" "length (?h ! 1) = 2" "length (?h ! 2) = 2"
    by simp_all
  from sedflux_node_values [OF a, of ?s 0]
  obtain flux h' where r: "sedflux ?s 0 0 1 2 ?h = Inr (flux, ?s, h')"
    and l: "length (h' ! flux) = 2"
    and v: "\<forall>i<2. h' ! flux ! i =
                    (if 0 < ?h ! 2 ! i then ?h ! 0 ! i / ?h ! 2 ! i else 0) *
                    (if 0 \<le> ?h ! 1 ! i then CDaerial ?s else CDmarine ?s)"
    by blast
  have "h' ! flux ! 0 = 0.5" using v [rule_format, of 0] by simp
  moreover have "h' ! flux ! 1 = 2.5" using v [rule_format, of 1] by simp
  ultimately have "h' ! flux = [0.5, 2.5]" using l
    by (intro nth_equalityI) (auto simp: less_Suc_eq numeral_2_eq_2)
  with r show ?thesis by blast
qed

text \<open>
  Claim C5 asks for a shape-mismatch error, before any computation, whenever the three
  lengths differ. The method has no length check. On flux, elevation and area arrays of
  three, two and two entries the call returns a two-entry result and raises nothing.
\<close>

theorem sedflux_shape_mismatch_counterexample:
  "sedflux \<lparr>CDaerial = 0.1, CDmarine = 0.5, CFL = None\<rparr> 0 0 1 2
       [[10, 10, 10], [5, -2], [2, 2]]
   = Inr (3, \<lparr>CDaerial = 0.1, CDmarine = 0.5, CFL = None\<rparr>,
          [[10, 10, 10], [5, -2], [2, 2], [0.5, 2.5]])"
  by (simp add: sedflux_def numpy_zeros_def heap_setitem_def numpy_where_def getitem_def
      setitem_def bind_err_def upt_conv_Cons)

text \<open>
  Claim C5, as the code has it. For arrays of any lengths \<^verbatim>\<open>sedflux\<close> raises numpy's
  \<^verbatim>\<open>IndexError\<close> (in its first indexed assignment) when some index of positive area lies
  beyond \<^verbatim>\<open>diff_flux\<close> or beyond \<^verbatim>\<open>elevation\<close>; in every other case it returns a result
  of the length of \<^verbatim>\<open>elevation\<close>, whether or not the three lengths agree.
\<close>

theorem sedflux_no_length_check:
  assumes "diff_flux < length h" and "elevation < length h" and "area < length h"
  shows "((\<exists>i<length (h ! area). 0 < h ! area ! i \<and>
             (length (h ! diff_flux) \<le> i \<or> length (h ! elevation) \<le> i)) \<longrightarrow>
            sedflux self diff_flux sea elevation area h = Inl IndexError) \<and>
         (\<not> (\<exists>i<length (h ! area). 0 < h ! area ! i \<and>
             (length (h ! diff_flux) \<le> i \<or> length (h ! elevation) \<le> i)) \<longrightarrow>
            (\<exists>flux h'. sedflux self diff_flux sea elevation area h = Inr (flux, self, h') \<and>
                       length (h' ! flux) = length (h ! elevation)))"
proof (intro conjI impI)
  assume "\<exists>i<length (h ! area). 0 < h ! area ! i \<and>
             (length (h ! diff_flux) \<le> i \<or> length (h ! elevation) \<le> i)"
  then show "sedflux self diff_flux sea elevation area h = Inl IndexError"
    by (simp only: sedflux_eq [OF assms] if_True)
next
  assume "\<not> (\<exists>i<length (h ! area). 0 < h ! area ! i \<and>
             (length (h ! diff_flux) \<le> i \<or> length (h ! elevation) \<le> i))"
  then have "sedflux self diff_flux sea elevation area h =
      Inr (length h, self,
            h @ [map (\<lambda>i. (if i < length (h ! area) \<and> 0 < h ! area ! i
                              then h ! diff_flux ! i / h ! area ! i else 0) *
                             (if sea \<le> h ! elevation ! i then CDaerial self else CDmarine self))
                     [0..<length (h ! elevation)]])"
    by (simp only: sedflux_eq [OF assms] if_False)
  then show "\<exists>flux h'. sedflux self diff_flux sea elevation area h = Inr (flux, self, h') \<and>
                       length (h' ! flux) = length (h ! elevation)"
    by simp
qed

text \<open>An area array that is too long with a positive last entry raises; an elevation
  array that is too long does not, and fixes the length of the result.\<close>

theorem sedflux_no_length_check_witness:
  "sedflux \<lparr>CDaerial = 0.1, CDmarine = 0.5, CFL = None\<rparr> 0 0 1 2
       [[10, 10], [5, -2], [2, 2, 3]] = Inl IndexError \<and>
   (\<exists>flux h'. sedflux \<lparr>CDaerial = 0.1, CDmarine = 0.5, CFL = None\<rparr> 0 0 1 2
       [[10, 10], [5, -2, 4], [2, 2]]
       = Inr (flux, \<lparr>CDaerial = 0.1, CDmarine = 0.5, CFL = None\<rparr>, h') \<and>
      length (h' ! flux) = 3)"
proof -
  let ?s = "\<lparr>CDaerial = 0.1, CDmarine = 0.5, CFL = None\<rparr>"
  let ?h1 = "[[10, 10], [5, -2], [2, 2, 3 :: real]]"
  let ?h2 = "[[10, 10], [5, -2, 4], [2, 2 :: real]]"
  have a1: "(0::nat) < length ?h1" "(1::nat) < length ?h1" "(2::nat) < length ?h1" by simp_all
  have a2: "(0::nat) < length ?h2" "(1::nat) < length ?h2" "(2::nat) < length ?h2" by simp_all
  have bad: "\<exists>i<length (?h1 ! 2). 0 < ?h1 ! 2 ! i \<and>
             (length (?h1 ! 0) \<le> i \<or> length (?h1 ! 1) \<le> i)"
    by (rule exI [of _ 2]) simp
  have ok: "\<not> (\<exists>i<length (?h2 ! 2). 0 < ?h2 ! 2 ! i \<and>
             (length (?h2 ! 0) \<le> i \<or> length (?h2 ! 1) \<le> i))"
    by (simp add: not_le)
  from sedflux_no_length_check [OF a1, of ?s 0] bad
  have r1: "sedflux ?s 0 0 1 2 ?h1 = Inl IndexError" by blast
  from sedflux_no_length_check [OF a2, of ?s 0] ok
  obtain flux h' where x: "sedflux ?s 0 0 1 2 ?h2 = Inr (flux, ?s, h')"
    and l: "length (h' ! flux) = length (?h2 ! 1)" by blast
  from l have "length (h' ! flux) = 3" by simp
  with r1 x show ?thesis by blast
qed

text \<open>
  Claim C9. With arrays of equal length \<^verbatim>\<open>sedflux\<close> returns. Whenever it returns, the
  result is an array that did not exist before the call, hence different from each of the
  three arguments, of the length of \<^verbatim>\<open>elevation\<close>; and every array that existed before the
  call, the three arguments among them, has the contents it had before.
\<close>

theorem sedflux_fresh_result:
  assumes "diff_flux < length h" and "elevation < length h" and "area < length h"
  shows "(length (h ! diff_flux) = length (h ! elevation) \<and>
          length (h ! area) = length (h ! elevation) \<longrightarrow>
            (\<exists>flux h'. sedflux self diff_flux sea elevation area h = Inr (flux, self, h'))) \<and>
         (\<forall>flux s' h'. sedflux self diff_flux sea elevation area h = Inr (flux, s', h') \<longrightarrow>
            \<not> flux < length h \<and> flux < length h' \<and>
            flux \<noteq> diff_flux \<and> flux \<noteq> elevation \<and> flux \<noteq> area \<and>
            length (h' ! flux) = length (h ! elevation) \<and>
            (\<forall>a<length h. h' ! a = h ! a))"
proof (rule conjI)
  show "length (h ! diff_flux) = length (h ! elevation) \<and>
          length (h ! area) = length (h ! elevation) \<longrightarrow>
            (\<exists>flux h'. sedflux self diff_flux sea elevation area h = Inr (flux, self, h'))"
  proof
    assume "length (h ! diff_flux) = length (h ! elevation) \<and>
            length (h ! area) = length (h ! elevation)"
    then have "\<not> (\<exists>i<length (h ! area). 0 < h ! area ! i \<and>
               (length (h ! diff_flux) \<le> i \<or> length (h ! elevation) \<le> i))"
      by auto
    then show "\<exists>flux h'. sedflux self diff_flux sea elevation area h = Inr (flux, self, h')"
      by (simp only: sedflux_eq [OF assms] if_False) blast
  qed
next
  show "\<forall>flux s' h'. sedflux self diff_flux sea elevation area h = Inr (flux, s', h') \<longrightarrow>
            \<not> flux < length h \<and> flux < length h' \<and>
            flux \<noteq> diff_flux \<and> flux \<noteq> elevation \<and> flux \<noteq> area \<and>
            length (h' ! flux) = length (h ! elevation) \<and>
            (\<forall>a<length h. h' ! a = h ! a)"
  proof (intro allI impI)
    fix flux s' h'
    assume r: "sedflux self diff_flux sea elevation area h = Inr (flux, s', h')"
    let ?F = "map (\<lambda>i. (if i < length (h ! area) \<and> 0 < h ! area ! i
                              then h ! diff_flux ! i / h ! area ! i else 0) *
                             (if sea \<le> h ! elevation ! i then CDaerial self else CDmarine self))
                     [0..<length (h ! elevation)]"
    from r have e: "flux = length h \<and> h' = h @ [?F]"
      unfolding sedflux_eq [OF assms] by (simp split: if_splits)
    then show "\<not> flux < length h \<and> flux < length h' \<and>
            flux \<noteq> diff_flux \<and> flux \<noteq> elevation \<and> flux \<noteq> area \<and>
            length (h' ! flux) = length (h ! elevation) \<and>
            (\<forall>a<length h. h' ! a = h ! a)"
      using assms by (simp add: nth_append)
  qed
qed

text \<open>The same array passed as flux accumulator, elevation and area.\<close>

theorem sedflux_fresh_result_witness:
  "\<exists>flux h'. sedflux \<lparr>CDaerial = 0.1, CDmarine = 0.5, CFL = None\<rparr> 0 0 0 0 [[7, 1, 0]]
               = Inr (flux, \<lparr>CDaerial = 0.1, CDmarine = 0.5, CFL = None\<rparr>, h') \<and>
             flux \<noteq> 0 \<and> length (h' ! flux) = 3 \<and> h' ! 0 = [7, 1, 0]"
proof -
  let ?s = "\<lparr>CDaerial = 0.1, CDmarine = 0.5, CFL = None\<rparr>"
  let ?h = "[[7, 1, 0 :: real]]"
  have a: "(0::nat) < length ?h" by simp
  note t = sedflux_fresh_result [OF a a a, of ?s 0]
  from t obtain flux h' where r: "sedflux ?s 0 0 0 0 ?h = Inr (flux, ?s, h')" by blast
  with t have "flux \<noteq> 0 \<and> length (h' ! flux) = length (?h ! 0) \<and> (\<forall>a<length ?h. h' ! a = ?h ! a)"
    by blast
  then have "flux \<noteq> 0 \<and> length (h' ! flux) = 3 \<and> h' ! 0 = [7, 1, 0]" by simp
  with r show ?thesis by blast
qed

subsection \<open>The stable timestep\<close>

text \<open>
  Claim C2. When the edge lengths contain a strictly positive entry, the local candidate of
  \<^verbatim>\<open>dt_pstability\<close> is 0.05 times the least square of the strictly positive entries,
  divided by the larger of the two coefficients; zero and negative entries do not enter the
  minimum. The stored timestep is the reduction of this candidate with the candidates of
  the other processes, and in a single-process run with a non-zero divisor it is the
  candidate itself.
\<close>

theorem dt_pstability_local_candidate:
  assumes "\<exists>x\<in>set (flatten edgelen). 0 < x"
  shows "dt_pstability self edgelen others =
           Inr (None, self\<lparr>CFL := Some (Allreduce_MIN
             (np_div (0.05 * Min (set (map (\<lambda>x. x\<^sup>2) (filter (\<lambda>x. 0 < x) (flatten edgelen)))))
                     (max (CDaerial self) (CDmarine self))) others)\<rparr>) \<and>
         (max (CDaerial self) (CDmarine self) \<noteq> 0 \<longrightarrow>
            dt_pstability self edgelen [] =
              Inr (None, self\<lparr>CFL := Some (Fin
                (0.05 * Min (set (map (\<lambda>x. x\<^sup>2) (filter (\<lambda>x. 0 < x) (flatten edgelen))))
                   / max (CDaerial self) (CDmarine self)))\<rparr>))"
  using assms by (simp add: dt_pstability_eq np_div_def Allreduce_MIN_def)

text \<open>The edges 0, 2, 3 with coefficients 1 and 0 give 0.2, not 0.\<close>

theorem dt_pstability_local_candidate_witness:
  "dt_pstability \<lparr>CDaerial = 1, CDmarine = 0, CFL = None\<rparr> [[0, 2, 3]] [] =
     Inr (None, \<lparr>CDaerial = 1, CDmarine = 0, CFL = Some (Fin 0.2)\<rparr>)"
proof -
  have h: "\<exists>x\<in>set (flatten [[0, 2, 3 :: real]]). 0 < x" by (simp add: flatten_def)
  show ?thesis
    using dt_pstability_local_candidate [OF h, of "\<lparr>CDaerial = 1, CDmarine = 0, CFL = None\<rparr>" "[]"]
    by (simp add: flatten_def np_div_def Allreduce_MIN_def)
qed

text \<open>
  Claim C3. For an input with a strictly positive entry and the same coefficients, a
  single-process run of \<^verbatim>\<open>dt_pstability\<close> and one of \<^verbatim>\<open>dt_fstability\<close> (with the
  kernel as the specification describes it) both succeed and store timesteps that agree
  within the relative tolerance \<^verbatim>\<open>1e-9\<close>.
\<close>

theorem stability_paths_agree:
  assumes "\<exists>x\<in>set (flatten edgelen). 0 < x"
  shows "\<exists>a b. dt_pstability self edgelen [] = Inr (None, self\<lparr>CFL := Some a\<rparr>) \<and>
               dt_fstability diffcfl_spec self edgelen [] = Inr (None, self\<lparr>CFL := Some b\<rparr>) \<and>
               isclose (1 / 10 ^ 9) a b"
proof -
  let ?m = "Min (set (map (\<lambda>x. x\<^sup>2) (filter (\<lambda>x. 0 < x) (flatten edgelen))))"
  let ?c = "np_div (0.05 * ?m) (max (CDaerial self) (CDmarine self))"
  have ne: "filter (\<lambda>x. 0 < x) (flatten edgelen) \<noteq> []"
    using assms by (simp add: filter_empty_conv)
  have p: "dt_pstability self edgelen [] = Inr (None, self\<lparr>CFL := Some ?c\<rparr>)"
    using assms by (simp add: dt_pstability_eq Allreduce_MIN_def)
  have f: "dt_fstability diffcfl_spec self edgelen [] = Inr (None, self\<lparr>CFL := Some ?c\<rparr>)"
    using ne by (simp add: dt_fstability_def diffcfl_spec_def bind_err_def Allreduce_MIN_def
        del: set_map set_filter)
  have "0 < 0.05 * ?m" using Min_squares_pos [OF assms] by simp
  then have "isclose (1 / 10 ^ 9) ?c ?c"
    by (simp add: np_div_def)
  with p f show ?thesis by blast
qed

theorem stability_paths_agree_witness:
  "(\<exists>x\<in>set (flatten [[0, 2, 3 :: real]]). 0 < x) \<and>
   (\<exists>a b. dt_pstability \<lparr>CDaerial = 1, CDmarine = 0, CFL = None\<rparr> [[0, 2, 3]] []
             = Inr (None, \<lparr>CDaerial = 1, CDmarine = 0, CFL = None\<rparr>\<lparr>CFL := Some a\<rparr>) \<and>
          dt_fstability diffcfl_spec \<lparr>CDaerial = 1, CDmarine = 0, CFL = None\<rparr> [[0, 2, 3]] []
             = Inr (None, \<lparr>CDaerial = 1, CDmarine = 0, CFL = None\<rparr>\<lparr>CFL := Some b\<rparr>) \<and>
          isclose (1 / 10 ^ 9) a b)"
proof -
  have h: "\<exists>x\<in>set (flatten [[0, 2, 3 :: real]]). 0 < x" by (simp add: flatten_def)
  from h stability_paths_agree [OF h, of "\<lparr>CDaerial = 1, CDmarine = 0, CFL = None\<rparr>"]
  show ?thesis by (rule conjI)
qed

text \<open>
  Claim C4 says that a stability call stores the global minimum and returns it. Both
  methods store it in \<^verbatim>\<open>self.CFL\<close> but have no \<^verbatim>\<open>return\<close> statement, so the caller
  receives \<^verbatim>\<open>None\<close>: here the call returns \<^verbatim>\<open>None\<close> and stores 0.2.
\<close>

theorem stability_returns_stored_counterexample:
  "dt_pstability \<lparr>CDaerial = 1, CDmarine = 0, CFL = None\<rparr> [[2]] [] =
     Inr (None, \<lparr>CDaerial = 1, CDmarine = 0, CFL = Some (Fin 0.2)\<rparr>)"
  by (simp add: dt_pstability_eq flatten_def np_div_def Allreduce_MIN_def)

text \<open>
  Claim C4, as the code has it. A stability call that completes returns \<^verbatim>\<open>None\<close> and
  stores in \<^verbatim>\<open>CFL\<close> the result of the reduction of its local candidate \<open>c\<close> with the
  candidates of the other processes. That result is one of these candidates, and none of
  them is smaller, provided the local candidate is not \<^verbatim>\<open>nan\<close> (that of
  \<^verbatim>\<open>dt_pstability\<close> never is). \<^verbatim>\<open>dt_pstability\<close> completes whenever an edge length is
  strictly positive; for \<^verbatim>\<open>dt_fstability\<close> the local candidate is whatever the kernel
  returned.
\<close>

theorem stability_stores_and_returns_None:
  "((\<exists>x\<in>set (flatten edgelen). 0 < x) \<longrightarrow>
      (\<exists>c. c \<noteq> NaN \<and>
           dt_pstability self edgelen others =
             Inr (None, self\<lparr>CFL := Some (Allreduce_MIN c others)\<rparr>) \<and>
           dt_pstability self edgelen [] = Inr (None, self\<lparr>CFL := Some c\<rparr>) \<and>
           (Allreduce_MIN c others = c \<or> Allreduce_MIN c others \<in> set others) \<and>
           (\<forall>x\<in>set (c # others). \<not> np_less x (Allreduce_MIN c others)))) \<and>
   (\<forall>c. diffcfl edgelen (max (CDaerial self) (CDmarine self)) = Inr c \<longrightarrow>
      dt_fstability diffcfl self edgelen others =
        Inr (None, self\<lparr>CFL := Some (Allreduce_MIN c others)\<rparr>) \<and>
      (Allreduce_MIN c others = c \<or> Allreduce_MIN c others \<in> set others) \<and>
      (c \<noteq> NaN \<longrightarrow> (\<forall>x\<in>set (c # others). \<not> np_less x (Allreduce_MIN c others))))"
proof (intro conjI impI allI)
  assume pos: "\<exists>x\<in>set (flatten edgelen). 0 < x"
  let ?c = "np_div (0.05 * Min (set (map (\<lambda>x. x\<^sup>2) (filter (\<lambda>x. 0 < x) (flatten edgelen)))))
                   (max (CDaerial self) (CDmarine self))"
  have "0 < 0.05 * Min (set (map (\<lambda>x. x\<^sup>2) (filter (\<lambda>x. 0 < x) (flatten edgelen))))"
    using Min_squares_pos [OF pos] by simp
  then have n: "?c \<noteq> NaN" by (rule np_div_pos)
  have a: "dt_pstability self edgelen others =
             Inr (None, self\<lparr>CFL := Some (Allreduce_MIN ?c others)\<rparr>)"
    using pos by (simp only: dt_pstability_eq if_True)
  have b: "dt_pstability self edgelen [] = Inr (None, self\<lparr>CFL := Some ?c\<rparr>)"
    using pos by (simp add: dt_pstability_eq Allreduce_MIN_def)
  from n a b Allreduce_MIN_mem [of ?c others] Allreduce_MIN_least [OF n, of others]
  show "\<exists>c. c \<noteq> NaN \<and>
           dt_pstability self edgelen others =
             Inr (None, self\<lparr>CFL := Some (Allreduce_MIN c others)\<rparr>) \<and>
           dt_pstability self edgelen [] = Inr (None, self\<lparr>CFL := Some c\<rparr>) \<and>
           (Allreduce_MIN c others = c \<or> Allreduce_MIN c others \<in> set others) \<and>
           (\<forall>x\<in>set (c # others). \<not> np_less x (Allreduce_MIN c others))"
    by blast
next
  fix c assume k: "diffcfl edgelen (max (CDaerial self) (CDmarine self)) = Inr c"
  then show "dt_fstability diffcfl self edgelen others =
        Inr (None, self\<lparr>CFL := Some (Allreduce_MIN c others)\<rparr>)"
    by (simp add: dt_fstability_def bind_err_def)
next
  fix c
  show "Allreduce_MIN c others = c \<or> Allreduce_MIN c others \<in> set others"
    by (rule Allreduce_MIN_mem)
next
  fix c :: npfloat assume "c \<noteq> NaN"
  then show "\<forall>x\<in>set (c # others). \<not> np_less x (Allreduce_MIN c others)"
    by (rule Allreduce_MIN_least)
qed

theorem stability_stores_and_returns_None_witness:
  "dt_pstability \<lparr>CDaerial = 1, CDmarine = 0, CFL = None\<rparr> [[0, 2, 3]] [] =
     Inr (None, \<lparr>CDaerial = 1, CDmarine = 0, CFL = Some (Fin 0.2)\<rparr>) \<and>
   dt_fstability diffcfl_spec \<lparr>CDaerial = 1, CDmarine = 0, CFL = None\<rparr> [[0, 2, 3]] [Fin 0.12] =
     Inr (None, \<lparr>CDaerial = 1, CDmarine = 0, CFL = Some (Fin 0.12)\<rparr>)"
proof -
  let ?s = "\<lparr>CDaerial = 1, CDmarine = 0, CFL = None\<rparr>"
  note t = stability_stores_and_returns_None [of "[[0, 2, 3]]" ?s "[Fin 0.12]" diffcfl_spec]
  have h: "\<exists>x\<in>set (flatten [[0, 2, 3 :: real]]). 0 < x" by (simp add: flatten_def)
  have k: "diffcfl_spec [[0, 2, 3]] (max (CDaerial ?s) (CDmarine ?s)) = Inr (Fin 0.2)"
    by (simp add: diffcfl_spec_def flatten_def np_div_def)
  from t h obtain c where
    "dt_pstability ?s [[0, 2, 3]] [] = Inr (None, ?s\<lparr>CFL := Some c\<rparr>)" by blast
  moreover have "dt_pstability ?s [[0, 2, 3]] [] = Inr (None, ?s\<lparr>CFL := Some (Fin 0.2)\<rparr>)"
    by (simp add: dt_pstability_eq flatten_def np_div_def Allreduce_MIN_def)
  ultimately have p: "dt_pstability ?s [[0, 2, 3]] [] = Inr (None, ?s\<lparr>CFL := Some (Fin 0.2)\<rparr>)"
    by simp
  from t k have "dt_fstability diffcfl_spec ?s [[0, 2, 3]] [Fin 0.12] =
        Inr (None, ?s\<lparr>CFL := Some (Allreduce_MIN (Fin 0.2) [Fin 0.12])\<rparr>)"
    by blast
  then have f: "dt_fstability diffcfl_spec ?s [[0, 2, 3]] [Fin 0.12] =
        Inr (None, ?s\<lparr>CFL := Some (Fin 0.12)\<rparr>)"
    by (simp add: Allreduce_MIN_def mpi_min_def)
  from p f show ?thesis by simp
qed

text \<open>
  Claim C6 asks for a configuration error when both coefficients are zero.
  \<^verbatim>\<open>dt_pstability\<close> checks nothing: the division by \<^verbatim>\<open>maxCD = 0\<close> raises no exception and
  its result is stored. Here a single-process call with both coefficients zero and the
  single edge length 1 stores \<^verbatim>\<open>inf\<close>.
\<close>

theorem zero_coefficients_counterexample:
  "dt_pstability \<lparr>CDaerial = 0, CDmarine = 0, CFL = None\<rparr> [[1]] [] =
     Inr (None, \<lparr>CDaerial = 0, CDmarine = 0, CFL = Some PInf\<rparr>)"
  by (simp add: dt_pstability_eq flatten_def np_div_def Allreduce_MIN_def)

text \<open>
  Claim C6, as the code has it. With both coefficients zero and a strictly positive edge
  length \<^verbatim>\<open>dt_pstability\<close> raises nothing: its local candidate is \<^verbatim>\<open>inf\<close>, which enters
  the reduction like any other candidate, and a single-process run stores \<^verbatim>\<open>inf\<close>.
\<close>

text \<open>
  Claim C6, as the code has it. With both coefficients zero and a strictly positive edge
  length \<^verbatim>\<open>dt_pstability\<close> raises nothing: the call completes, its local candidate is not a
  finite number, it enters the reduction like any other candidate, and a single-process
  run stores it. (Which non-finite value it is depends on the floating-point details: it
  is \<^verbatim>\<open>inf\<close> for the reals of this model, and in \<^verbatim>\<open>float64\<close> it is \<^verbatim>\<open>nan\<close> when the smallest
  positive square underflows to zero and \<^verbatim>\<open>-inf\<close> for a negative zero divisor; the
  statement holds for each.)
\<close>

theorem zero_coefficients_store_nonfinite:
  assumes "CDaerial self = 0" and "CDmarine self = 0"
    and "\<exists>x\<in>set (flatten edgelen). 0 < x"
  shows "\<exists>c. \<not> isfinite c \<and>
           dt_pstability self edgelen others =
             Inr (None, self\<lparr>CFL := Some (Allreduce_MIN c others)\<rparr>) \<and>
           dt_pstability self edgelen [] = Inr (None, self\<lparr>CFL := Some c\<rparr>)"
proof -
  have "0 < 0.05 * Min (set (map (\<lambda>x. x\<^sup>2) (filter (\<lambda>x. 0 < x) (flatten edgelen))))"
    using Min_squares_pos [OF assms(3)] by simp
  then have "np_div (0.05 * Min (set (map (\<lambda>x. x\<^sup>2) (filter (\<lambda>x. 0 < x) (flatten edgelen)))))
                (max (CDaerial self) (CDmarine self)) = PInf"
    using assms(1,2) by (simp add: np_div_def)
  then have "dt_pstability self edgelen others =
             Inr (None, self\<lparr>CFL := Some (Allreduce_MIN PInf others)\<rparr>) \<and>
           dt_pstability self edgelen [] = Inr (None, self\<lparr>CFL := Some PInf\<rparr>)"
    using assms(3) by (simp add: dt_pstability_eq Allreduce_MIN_def)
  moreover have "\<not> isfinite PInf" by simp
  ultimately show ?thesis by blast
qed

theorem zero_coefficients_store_nonfinite_witness:
  "\<exists>c. \<not> isfinite c \<and>
     dt_pstability \<lparr>CDaerial = 0, CDmarine = 0, CFL = None\<rparr> [[0, 2, 3]] [Fin 0.3] =
       Inr (None, \<lparr>CDaerial = 0, CDmarine = 0,
                   CFL = Some (Allreduce_MIN c [Fin 0.3])\<rparr>) \<and>
     dt_pstability \<lparr>CDaerial = 0, CDmarine = 0, CFL = None\<rparr> [[0, 2, 3]] [] =
       Inr (None, \<lparr>CDaerial = 0, CDmarine = 0, CFL = Some c\<rparr>)"
proof -
  let ?s = "\<lparr>CDaerial = 0, CDmarine = 0, CFL = None\<rparr>"
  have a: "CDaerial ?s = 0" "CDmarine ?s = 0" by simp_all
  have h: "\<exists>x\<in>set (flatten [[0, 2, 3 :: real]]). 0 < x" by (simp add: flatten_def)
  show ?thesis
    using zero_coefficients_store_nonfinite [OF a h, of "[Fin 0.3]"] by simp
qed

text \<open>
  Claim C7. When no edge length is strictly positive, \<^verbatim>\<open>dt_pstability\<close> does not return a
  value: the minimum of the empty selection raises (numpy's \<^verbatim>\<open>ValueError\<close>), an exception
  the caller can catch, and nothing has been stored.
\<close>

theorem dt_pstability_no_positive_edge:
  assumes "\<forall>x\<in>set (flatten edgelen). x \<le> 0"
  shows "dt_pstability self edgelen others = Inl ValueError"
proof -
  have "\<not> (\<exists>x\<in>set (flatten edgelen). 0 < x)" using assms by (auto simp: not_less)
  then show ?thesis by (simp only: dt_pstability_eq if_False)
qed

theorem dt_pstability_no_positive_edge_witness:
  "dt_pstability \<lparr>CDaerial = 1, CDmarine = 0, CFL = None\<rparr> [[0, -1], [-2, 0]] [Fin 0.3]
   = Inl ValueError"
proof -
  have h: "\<forall>x\<in>set (flatten [[0, -1 :: real], [-2, 0]]). x \<le> 0"
    by (simp add: flatten_def)
  show ?thesis by (rule dt_pstability_no_positive_edge [OF h])
qed

text \<open>
  Claim C8. \<^verbatim>\<open>dt_pstability\<close> gives the same outcome for two edge-length inputs whose
  flattened sequences are permutations of each other (with the candidates of the other
  processes in any order). It is also invariant under reordering of the participating
  processes: two processes of one collective, whose local candidates are \<open>c\<close> and \<open>c'\<close>
  and which see the remaining candidates \<open>others\<close> and \<open>others'\<close>, so that \<open>c\<close> with
  \<open>others\<close> and \<open>c'\<close> with \<open>others'\<close> are the same candidates in another order, store the
  same timestep, none of the candidates being \<^verbatim>\<open>nan\<close>. The local candidate of a process is
  what it stores in a single-process run.
\<close>

theorem dt_pstability_permutation:
  "(mset (flatten edgelen) = mset (flatten edgelen2) \<and> mset others = mset others2 \<longrightarrow>
      dt_pstability self edgelen2 others2 = dt_pstability self edgelen others) \<and>
   (dt_pstability self edgelen [] = Inr (None, self\<lparr>CFL := Some c\<rparr>) \<and>
    dt_pstability self' edgelen' [] = Inr (None, self'\<lparr>CFL := Some c'\<rparr>) \<and>
    mset (c # others) = mset (c' # others') \<and> NaN \<notin> set (c # others) \<longrightarrow>
      (\<exists>g. dt_pstability self edgelen others = Inr (None, self\<lparr>CFL := Some g\<rparr>) \<and>
           dt_pstability self' edgelen' others' = Inr (None, self'\<lparr>CFL := Some g\<rparr>)))"
proof (intro conjI impI)
  assume a: "mset (flatten edgelen) = mset (flatten edgelen2) \<and> mset others = mset others2"
  then have s: "set (flatten edgelen) = set (flatten edgelen2)"
    by (intro mset_eq_setD) simp
  from a have "mset (map (\<lambda>x. x\<^sup>2) (filter (\<lambda>x. 0 < x) (flatten edgelen)))
      = mset (map (\<lambda>x. x\<^sup>2) (filter (\<lambda>x. 0 < x) (flatten edgelen2)))"
    by (simp only: mset_map mset_filter)
  then have m: "set (map (\<lambda>x. x\<^sup>2) (filter (\<lambda>x. 0 < x) (flatten edgelen)))
      = set (map (\<lambda>x. x\<^sup>2) (filter (\<lambda>x. 0 < x) (flatten edgelen2)))"
    by (rule mset_eq_setD)
  from a have o: "Allreduce_MIN k others = Allreduce_MIN k others2" for k
    by (intro Allreduce_MIN_mset) simp
  show "dt_pstability self edgelen2 others2 = dt_pstability self edgelen others"
    unfolding dt_pstability_eq s m o ..
next
  assume b: "dt_pstability self edgelen [] = Inr (None, self\<lparr>CFL := Some c\<rparr>) \<and>
    dt_pstability self' edgelen' [] = Inr (None, self'\<lparr>CFL := Some c'\<rparr>) \<and>
    mset (c # others) = mset (c' # others') \<and> NaN \<notin> set (c # others)"
  then have p: "dt_pstability self edgelen others =
      Inr (None, self\<lparr>CFL := Some (Allreduce_MIN c others)\<rparr>)"
    by (intro dt_pstability_alone) simp
  from b have q: "dt_pstability self' edgelen' others' =
      Inr (None, self'\<lparr>CFL := Some (Allreduce_MIN c' others')\<rparr>)"
    by (intro dt_pstability_alone) simp
  from b have "Allreduce_MIN c others = Allreduce_MIN c' others'"
    by (intro Allreduce_MIN_participants) simp_all
  with p have "dt_pstability self edgelen others =
      Inr (None, self\<lparr>CFL := Some (Allreduce_MIN c' others')\<rparr>)" by simp
  with q show "\<exists>g. dt_pstability self edgelen others = Inr (None, self\<lparr>CFL := Some g\<rparr>) \<and>
           dt_pstability self' edgelen' others' = Inr (None, self'\<lparr>CFL := Some g\<rparr>)"
    by blast
qed

text \<open>Three processes with candidates 0.2, 0.8 and 0.3: the process holding 0.2, on its
  edges in two orders, and the process holding 0.8 all store 0.2.\<close>

theorem dt_pstability_permutation_witness:
  "dt_pstability \<lparr>CDaerial = 1, CDmarine = 0, CFL = None\<rparr> [[3, 0, 2]] [Fin 0.3, Fin 0.8]
   = dt_pstability \<lparr>CDaerial = 1, CDmarine = 0, CFL = None\<rparr> [[0, 2, 3]] [Fin 0.8, Fin 0.3] \<and>
   dt_pstability \<lparr>CDaerial = 1, CDmarine = 0, CFL = None\<rparr> [[0, 2, 3]] [Fin 0.8, Fin 0.3]
   = Inr (None, \<lparr>CDaerial = 1, CDmarine = 0, CFL = Some (Fin 0.2)\<rparr>) \<and>
   dt_pstability \<lparr>CDaerial = 1, CDmarine = 0.5, CFL = None\<rparr> [[4, 0, 5]] [Fin 0.3, Fin 0.2]
   = Inr (None, \<lparr>CDaerial = 1, CDmarine = 0.5, CFL = Some (Fin 0.2)\<rparr>)"
proof -
  let ?s = "\<lparr>CDaerial = 1, CDmarine = 0, CFL = None\<rparr>"
  let ?t = "\<lparr>CDaerial = 1, CDmarine = 0.5, CFL = None\<rparr>"
  note t = dt_pstability_permutation
    [of "[[0, 2, 3]]" "[[3, 0, 2]]" "[Fin 0.8, Fin 0.3]" "[Fin 0.3, Fin 0.8]" ?s
        "Fin 0.2" ?t "[[4, 0, 5]]" "Fin 0.8" "[Fin 0.3, Fin 0.2]"]
  have a: "mset (flatten [[0, 2, 3 :: real]]) = mset (flatten [[3, 0, 2]]) \<and>
           mset [Fin 0.8, Fin 0.3] = mset [Fin 0.3, Fin 0.8]"
    by (simp add: flatten_def)
  have c: "dt_pstability ?s [[0, 2, 3]] [] = Inr (None, ?s\<lparr>CFL := Some (Fin 0.2)\<rparr>)"
    by (simp add: dt_pstability_eq flatten_def np_div_def Allreduce_MIN_def)
  have c': "dt_pstability ?t [[4, 0, 5]] [] = Inr (None, ?t\<lparr>CFL := Some (Fin 0.8)\<rparr>)"
    by (simp add: dt_pstability_eq flatten_def np_div_def Allreduce_MIN_def)
  have m: "mset (Fin 0.2 # [Fin 0.8, Fin 0.3]) = mset (Fin 0.8 # [Fin 0.3, Fin 0.2])"
    by simp
  have n: "NaN \<notin> set (Fin 0.2 # [Fin 0.8, Fin 0.3])" by simp
  from t a have e1: "dt_pstability ?s [[3, 0, 2]] [Fin 0.3, Fin 0.8]
      = dt_pstability ?s [[0, 2, 3]] [Fin 0.8, Fin 0.3]" by blast
  from t c c' m n obtain g where
    g1: "dt_pstability ?s [[0, 2, 3]] [Fin 0.8, Fin 0.3] = Inr (None, ?s\<lparr>CFL := Some g\<rparr>)" and
    g2: "dt_pstability ?t [[4, 0, 5]] [Fin 0.3, Fin 0.2] = Inr (None, ?t\<lparr>CFL := Some g\<rparr>)"
    by blast
  have "dt_pstability ?s [[0, 2, 3]] [Fin 0.8, Fin 0.3] = Inr (None, ?s\<lparr>CFL := Some (Fin 0.2)\<rparr>)"
    by (simp add: dt_pstability_eq flatten_def np_div_def Allreduce_MIN_def mpi_min_def)
  with g1 have "g = Fin 0.2" by simp
  with e1 g1 g2 show ?thesis by simp
qed

subsection \<open>The instance state\<close>

text \<open>
  Claim C10. No method changes \<^verbatim>\<open>CDaerial\<close> or \<^verbatim>\<open>CDmarine\<close>, and \<^verbatim>\<open>sedflux\<close> leaves \<^verbatim>\<open>CFL\<close>
  as it was: the only assignments to the instance are those to \<^verbatim>\<open>CFL\<close> that end the two
  stability methods. (A call that raises has made no assignment.)
\<close>

theorem operations_preserve_coefficients:
  "(dt_pstability self edgelen others = Inr (r1, s1) \<longrightarrow>
      CDaerial s1 = CDaerial self \<and> CDmarine s1 = CDmarine self) \<and>
   (dt_fstability diffcfl self edgelen others = Inr (r2, s2) \<longrightarrow>
      CDaerial s2 = CDaerial self \<and> CDmarine s2 = CDmarine self) \<and>
   (sedflux self diff_flux sea elevation area h = Inr (flux, s3, h') \<longrightarrow>
      CDaerial s3 = CDaerial self \<and> CDmarine s3 = CDmarine self \<and> CFL s3 = CFL self)"
proof (intro conjI impI)
  assume "dt_pstability self edgelen others = Inr (r1, s1)"
  then have "\<exists>g. s1 = self\<lparr>CFL := Some g\<rparr>"
    unfolding dt_pstability_eq by (auto split: if_splits)
  then show "CDaerial s1 = CDaerial self" "CDmarine s1 = CDmarine self" by auto
next
  assume "dt_fstability diffcfl self edgelen others = Inr (r2, s2)"
  then have "\<exists>g. s2 = self\<lparr>CFL := Some g\<rparr>"
    by (auto simp: dt_fstability_def bind_err_def split: sum.splits)
  then show "CDaerial s2 = CDaerial self" "CDmarine s2 = CDmarine self" by auto
next
  assume "sedflux self diff_flux sea elevation area h = Inr (flux, s3, h')"
  then have "s3 = self"
    by (auto simp: sedflux_def numpy_zeros_def bind_err_def Let_def split: sum.splits)
  then show "CDaerial s3 = CDaerial self" "CDmarine s3 = CDmarine self" "CFL s3 = CFL self"
    by simp_all
qed

theorem operations_preserve_coefficients_witness:
  "dt_pstability \<lparr>CDaerial = 0.1, CDmarine = 0.5, CFL = Some (Fin 7)\<rparr> [[0, 2, 3]] []
     = Inr (None, \<lparr>CDaerial = 0.1, CDmarine = 0.5, CFL = Some (Fin 0.4)\<rparr>) \<and>
   dt_fstability diffcfl_spec \<lparr>CDaerial = 0.1, CDmarine = 0.5, CFL = Some (Fin 7)\<rparr> [[0, 2, 3]] []
     = Inr (None, \<lparr>CDaerial = 0.1, CDmarine = 0.5, CFL = Some (Fin 0.4)\<rparr>) \<and>
   sedflux \<lparr>CDaerial = 0.1, CDmarine = 0.5, CFL = Some (Fin 7)\<rparr> 0 0 1 2
       [[10, 10], [5, -2], [2, 2]]
     = Inr (3, \<lparr>CDaerial = 0.1, CDmarine = 0.5, CFL = Some (Fin 7)\<rparr>,
            [[10, 10], [5, -2], [2, 2], [0.5, 2.5]]) \<and>
   CDaerial \<lparr>CDaerial = 0.1, CDmarine = 0.5, CFL = Some (Fin 0.4)\<rparr> = 0.1 \<and>
   CDmarine \<lparr>CDaerial = 0.1, CDmarine = 0.5, CFL = Some (Fin 0.4)\<rparr> = 0.5 \<and>
   CFL \<lparr>CDaerial = 0.1, CDmarine = 0.5, CFL = Some (Fin 7)\<rparr> = Some (Fin 7)"
proof -
  let ?s = "\<lparr>CDaerial = 0.1, CDmarine = 0.5, CFL = Some (Fin 7)\<rparr>"
  let ?t = "\<lparr>CDaerial = 0.1, CDmarine = 0.5, CFL = Some (Fin 0.4)\<rparr>"
  let ?h = "[[10, 10], [5, -2], [2, 2 :: real]]"
  let ?h' = "[[10, 10], [5, -2], [2, 2], [0.5, 2.5 :: real]]"
  have e1: "dt_pstability ?s [[0, 2, 3]] [] = Inr (None, ?t)"
    by (simp add: dt_pstability_eq flatten_def np_div_def Allreduce_MIN_def)
  have e2: "dt_fstability diffcfl_spec ?s [[0, 2, 3]] [] = Inr (None, ?t)"
    by (simp add: dt_fstability_def diffcfl_spec_def bind_err_def flatten_def np_div_def
        Allreduce_MIN_def)
  have e3: "sedflux ?s 0 0 1 2 ?h = Inr (3, ?s, ?h')"
    by (simp add: sedflux_def numpy_zeros_def heap_setitem_def numpy_where_def getitem_def
      setitem_def bind_err_def upt_conv_Cons)
  from operations_preserve_coefficients
         [of ?s "[[0, 2, 3]]" "[]" None ?t diffcfl_spec None ?t 0 0 1 2 ?h 3 ?s ?h'] e1 e2 e3
  have "CDaerial ?t = CDaerial ?s \<and> CDmarine ?t = CDmarine ?s \<and> CFL ?s = CFL ?s"
    by blast
  then have "CDaerial ?t = 0.1 \<and> CDmarine ?t = 0.5 \<and> CFL ?s = Some (Fin 7)"
    by simp
  with e1 e2 e3 show ?thesis by blast
qed

end
